theory Spec2Isabelle
  imports Main "HOL-Library.Word"
begin

section \<open>JavaScript strings\<close>

text \<open>
  A JavaScript string is a sequence of UTF-16 code units. The literals of
  \<^verbatim>\<open>main.js\<close> are all ASCII, so they are written as HOL strings and
  converted with \<open>ascii\<close>.
\<close>

type_synonym jschar = "16 word"
type_synonym jsstring = "jschar list"

definition ascii :: "string \<Rightarrow> jsstring" where
  "ascii s = map of_char s"

text \<open>
  \<^verbatim>\<open>String.prototype.trim\<close> removes leading and trailing WhiteSpace and
  LineTerminator code points (ECMA-262, TrimString): TAB, VT, FF, ZWNBSP and the
  Unicode space separators, and LF, CR, LS, PS.
\<close>

definition is_white_space :: "jschar \<Rightarrow> bool" where
  "is_white_space c \<longleftrightarrow>
     c \<in> {0x0009, 0x000B, 0x000C, 0x0020, 0x00A0, 0x1680, 0x202F, 0x205F, 0x3000, 0xFEFF}
     \<or> (0x2000 \<le> c \<and> c \<le> 0x200A)"

definition is_line_terminator :: "jschar \<Rightarrow> bool" where
  "is_line_terminator c \<longleftrightarrow> c \<in> {0x000A, 0x000D, 0x2028, 0x2029}"

definition trimmable :: "jschar \<Rightarrow> bool" where
  "trimmable c \<longleftrightarrow> is_white_space c \<or> is_line_terminator c"

definition js_trim :: "jsstring \<Rightarrow> jsstring" where
  "js_trim s = rev (dropWhile trimmable (rev (dropWhile trimmable s)))"

text \<open>
  \<^verbatim>\<open>s.split(sep)\<close> for a separator of one code unit and no limit: the
  pieces between the occurrences of the separator, so one more piece than there are
  occurrences; the empty string splits into one empty piece.
\<close>

fun js_split :: "jschar \<Rightarrow> jsstring \<Rightarrow> jsstring list" where
  "js_split sep [] = [[]]"
| "js_split sep (c # cs) =
     (let r = js_split sep cs in if c = sep then [] # r else (c # hd r) # tl r)"

definition newline :: jschar where
  "newline = 0x0A"

definition comma :: jschar where
  "comma = 0x2C"

section \<open>Lead parsing (leads-form submit handler, lines 84 to 87)\<close>

text \<open>
  \<^verbatim>\<open>const [name, phone] = line.split(',')\<close> binds each variable to the array
  element at its index, or to \<^verbatim>\<open>undefined\<close> (here \<open>None\<close>) when the array
  is shorter. \<^verbatim>\<open>x?.trim()\<close> is \<^verbatim>\<open>undefined\<close> when \<open>x\<close> is.
\<close>

record lead =
  name :: "jsstring option"
  phone :: "jsstring option"

definition element_at :: "'a list \<Rightarrow> nat \<Rightarrow> 'a option" where
  "element_at xs i = (if i < length xs then Some (xs ! i) else None)"

definition parse_line :: "jsstring \<Rightarrow> lead" where
  "parse_line line =
     (let tokens = js_split comma line;
          n = element_at tokens 0;
          p = element_at tokens 1
      in \<lparr> name = map_option js_trim n, phone = map_option js_trim p \<rparr>)"

text \<open>Truthiness of a value that is a string or \<^verbatim>\<open>undefined\<close>.\<close>

definition truthy :: "jsstring option \<Rightarrow> bool" where
  "truthy v = (case v of None \<Rightarrow> False | Some s \<Rightarrow> s \<noteq> [])"

definition leads_of_lines :: "jsstring list \<Rightarrow> lead list" where
  "leads_of_lines lines =
     filter (\<lambda>l. truthy (name l) \<and> truthy (phone l)) (map parse_line lines)"

definition parse_leads :: "jsstring \<Rightarrow> lead list" where
  "parse_leads leadsText = leads_of_lines (js_split newline leadsText)"

text \<open>
  The specification's wording of the filter, on a line of the text: both of its first
  two comma-split tokens exist and are non-empty after trimming.
\<close>

definition both_tokens_nonempty :: "jsstring \<Rightarrow> bool" where
  "both_tokens_nonempty line =
     (case js_split comma line of
        a # b # rest \<Rightarrow> js_trim a \<noteq> [] \<and> js_trim b \<noteq> []
      | _ \<Rightarrow> False)"

section \<open>JavaScript values\<close>

text \<open>
  The values the script handles: what \<^verbatim>\<open>response.json()\<close> can return
  (null, booleans, numbers, strings, arrays, objects) and \<^verbatim>\<open>undefined\<close>.
  \<open>JNum\<close> holds an integer-valued Number as a signed 54-bit word, read with
  \<open>sint\<close>: the integers from \<open>-2^53\<close> to \<open>2^53 - 1\<close>, each of them a
  Number exactly. Other Numbers (larger ones, fractions) are floating point and are
  left out. \<open>JObj\<close> lists the members of an object in the order of the JSON text (or
  of the object literal).
\<close>

datatype jsval =
    JUndefined
  | JNull
  | JBool bool
  | JNum "54 word"
  | JStr jsstring
  | JArr "jsval list"
  | JObj "(jsstring \<times> jsval) list"

text \<open>
  The exceptions that can arise: a TypeError (a property of \<^verbatim>\<open>null\<close> or
  \<^verbatim>\<open>undefined\<close>, a rejected \<^verbatim>\<open>fetch\<close>), the SyntaxError of
  JSON parsing, and the DOMException named SyntaxError that querySelector throws for a
  string that is not a selector.
\<close>

datatype js_error = TypeError | SyntaxError | DOMSyntaxError

text \<open>
  The own property of an object under a key: of several members with the same key
  \<^verbatim>\<open>JSON.parse\<close> keeps the last.
\<close>

definition own_property :: "(jsstring \<times> jsval) list \<Rightarrow> jsstring \<Rightarrow> jsval option" where
  "own_property kvs k = map_of (rev kvs) k"

text \<open>
  Number::toString in radix 10, for the integers \<open>JNum\<close> holds: below \<open>10^21\<close>
  in magnitude, so printed as their decimal digits, without an exponent.
\<close>

fun digits :: "nat \<Rightarrow> jsstring" where
  "digits n =
     (if n < 10 then [of_nat (48 + n)] else digits (n div 10) @ [of_nat (48 + n mod 10)])"

declare digits.simps [simp del]

definition number_to_string :: "54 word \<Rightarrow> jsstring" where
  "number_to_string w =
     (let i = sint w in if i < 0 then 0x2D # digits (nat (- i)) else digits (nat i))"

fun join :: "jsstring \<Rightarrow> jsstring list \<Rightarrow> jsstring" where
  "join sep [] = []"
| "join sep [x] = x"
| "join sep (x # y # ys) = x @ sep @ join sep (y # ys)"

text \<open>The values of a list of results, or the first error among them.\<close>

fun all_values :: "(js_error + 'a) list \<Rightarrow> js_error + 'a list" where
  "all_values [] = Inr []"
| "all_values (r # rs) =
     (case r of
        Inl e \<Rightarrow> Inl e
      | Inr x \<Rightarrow> (case all_values rs of Inl e \<Rightarrow> Inl e | Inr xs \<Rightarrow> Inr (x # xs)))"

text \<open>
  The conversion of a value to a string, as string concatenation, template literals and
  the assignment to a DOMString attribute apply it (ToPrimitive, then ToString). An
  array is joined with commas, its elements converted from left to right, the
  \<^verbatim>\<open>null\<close> and \<^verbatim>\<open>undefined\<close> ones as empty strings. A parsed object
  is \<^verbatim>\<open>[object Object]\<close>, by \<^verbatim>\<open>Object.prototype.toString\<close>, unless it
  has an own property \<^verbatim>\<open>toString\<close>: that property holds a parsed value, which
  is not callable, \<^verbatim>\<open>valueOf\<close> returns the object itself, and the conversion
  throws a TypeError.
\<close>

fun to_string :: "jsval \<Rightarrow> js_error + jsstring" where
  "to_string JUndefined = Inr (ascii ''undefined'')"
| "to_string JNull = Inr (ascii ''null'')"
| "to_string (JBool b) = Inr (if b then ascii ''true'' else ascii ''false'')"
| "to_string (JNum w) = Inr (number_to_string w)"
| "to_string (JStr s) = Inr s"
| "to_string (JArr vs) =
     (case all_values
             (map (\<lambda>v. if v = JUndefined \<or> v = JNull then Inr [] else to_string v) vs) of
        Inl e \<Rightarrow> Inl e
      | Inr strings \<Rightarrow> Inr (join [comma] strings))"
| "to_string (JObj kvs) =
     (if own_property kvs (ascii ''toString'') = None then Inr (ascii ''[object Object]'')
      else Inl TypeError)"

text \<open>
  Property read \<^verbatim>\<open>v.k\<close>, for the keys the script reads (\<^verbatim>\<open>status\<close>,
  \<^verbatim>\<open>campaign_id\<close>, \<^verbatim>\<open>total_calls\<close>, ...), none of which a built-in
  prototype defines: a TypeError on \<^verbatim>\<open>null\<close> and \<^verbatim>\<open>undefined\<close>, the
  own property of an object, \<^verbatim>\<open>undefined\<close> otherwise.
\<close>

fun get_property :: "jsval \<Rightarrow> jsstring \<Rightarrow> js_error + jsval" where
  "get_property JUndefined k = Inl TypeError"
| "get_property JNull k = Inl TypeError"
| "get_property (JObj kvs) k =
     Inr (case own_property kvs k of None \<Rightarrow> JUndefined | Some v \<Rightarrow> v)"
| "get_property v k = Inr JUndefined"

text \<open>\<^verbatim>\<open>v === 'literal'\<close>: \<open>v\<close> is a string of the same code units.\<close>

definition strictly_equal :: "jsval \<Rightarrow> jsstring \<Rightarrow> bool" where
  "strictly_equal v s \<longleftrightarrow> v = JStr s"

text \<open>
  What \<^verbatim>\<open>element.textContent = v\<close> stores. The attribute is a nullable
  DOMString: \<^verbatim>\<open>null\<close> and \<^verbatim>\<open>undefined\<close> convert to null, which the
  setter treats as the empty string; any other value is converted to a string, which
  can throw.
\<close>

definition text_content_value :: "jsval \<Rightarrow> js_error + jsstring" where
  "text_content_value v = (if v = JUndefined \<or> v = JNull then Inr [] else to_string v)"

section \<open>The page, the console and the network\<close>

text \<open>
  An element as the script sees it: its text content, and its \<^verbatim>\<open>value\<close>
  property (\<open>None\<close> for an element that is not a form control, where the property is
  \<^verbatim>\<open>undefined\<close>).
\<close>

record element =
  textContent :: jsstring
  field_value :: "jsstring option"

text \<open>
  A call of \<^verbatim>\<open>fetch\<close>. \<open>body = Some v\<close> stands for the body
  \<^verbatim>\<open>JSON.stringify(v)\<close>.
\<close>

record request =
  url :: jsstring
  http_method :: jsstring
  headers :: "(jsstring \<times> jsstring) list"
  body :: "jsval option"

text \<open>
  What the script can observe of the answer to a request: \<^verbatim>\<open>fetch\<close> rejects
  (a TypeError), or it resolves and \<^verbatim>\<open>response.json()\<close> rejects (a
  SyntaxError: the body is not JSON), or the body parses to a value.
\<close>

datatype response = Rejected | NotJson | Json jsval

type_synonym server = "request \<Rightarrow> response"

datatype node = ElementWithId jsstring | OtherNode nat

text \<open>
  The state the handlers read and change. \<open>elements\<close> is
  \<^verbatim>\<open>document.getElementById\<close>; \<open>selector_engine\<close> is the browser's selector
  matching for every selector \<open>querySelector\<close> below does not decide itself;
  \<open>search_params\<close> are the name-value pairs \<^verbatim>\<open>URLSearchParams\<close> parses out
  of \<^verbatim>\<open>window.location.search\<close>. The other fields record effects:
  \<open>default_prevented\<close> for \<^verbatim>\<open>e.preventDefault()\<close> on the event being
  handled, \<open>navigations\<close> for the assignments to \<^verbatim>\<open>window.location.href\<close>,
  \<open>console\<close> for the calls of \<^verbatim>\<open>console.error\<close>, \<open>fetched\<close> for the
  requests issued and \<open>scrolled\<close> for the calls of \<^verbatim>\<open>scrollIntoView\<close>.
\<close>

record browser =
  elements :: "jsstring \<rightharpoonup> element"
  selector_engine :: "jsstring \<Rightarrow> js_error + node option"
  search_params :: "(jsstring \<times> jsstring) list"
  default_prevented :: bool
  navigations :: "jsstring list"
  console :: "(jsstring \<times> js_error) list"
  fetched :: "request list"
  scrolled :: "node list"

text \<open>
  A statement maps the state to the new state and the exception it throws, if any.
  A thrown exception skips the rest of a sequence and is caught by the innermost
  \<^verbatim>\<open>try\<close>; the state changes made before it stay.
\<close>

type_synonym effect = "browser \<Rightarrow> browser \<times> js_error option"

definition skip :: effect where
  "skip b = (b, None)"

definition throw :: "js_error \<Rightarrow> effect" where
  "throw e b = (b, Some e)"

definition and_then :: "effect \<Rightarrow> effect \<Rightarrow> effect" where
  "and_then s1 s2 b = (case s1 b of (b', None) \<Rightarrow> s2 b' | (b', Some e) \<Rightarrow> (b', Some e))"

definition try_catch :: "effect \<Rightarrow> (js_error \<Rightarrow> effect) \<Rightarrow> effect" where
  "try_catch block handler b =
     (case block b of (b', None) \<Rightarrow> (b', None) | (b', Some e) \<Rightarrow> handler e b')"

definition with_value :: "js_error + 'a \<Rightarrow> ('a \<Rightarrow> effect) \<Rightarrow> effect" where
  "with_value r k = (case r of Inl e \<Rightarrow> throw e | Inr v \<Rightarrow> k v)"

definition with_read :: "(browser \<Rightarrow> js_error + 'a) \<Rightarrow> ('a \<Rightarrow> effect) \<Rightarrow> effect" where
  "with_read r k b = with_value (r b) k b"

definition preventDefault :: effect where
  "preventDefault b = (b\<lparr>default_prevented := True\<rparr>, None)"

definition navigate :: "jsstring \<Rightarrow> effect" where
  "navigate href b = (b\<lparr>navigations := navigations b @ [href]\<rparr>, None)"

definition console_error :: "jsstring \<Rightarrow> js_error \<Rightarrow> effect" where
  "console_error msg e b = (b\<lparr>console := console b @ [(msg, e)]\<rparr>, None)"

definition scrollIntoView :: "node \<Rightarrow> effect" where
  "scrollIntoView n b = (b\<lparr>scrolled := scrolled b @ [n]\<rparr>, None)"

text \<open>
  \<^verbatim>\<open>const response = await fetch(...); const data = await response.json();\<close>
  followed by the statements that use \<open>data\<close>.
\<close>

definition fetch_json :: "server \<Rightarrow> request \<Rightarrow> (jsval \<Rightarrow> effect) \<Rightarrow> effect" where
  "fetch_json srv req k b =
     (let b' = b\<lparr>fetched := fetched b @ [req]\<rparr>
      in case srv req of
           Rejected \<Rightarrow> (b', Some TypeError)
         | NotJson \<Rightarrow> (b', Some SyntaxError)
         | Json v \<Rightarrow> k v b')"

text \<open>\<^verbatim>\<open>document.getElementById(ident).value\<close>\<close>

definition field_value_of :: "jsstring \<Rightarrow> browser \<Rightarrow> js_error + jsval" where
  "field_value_of ident b =
     (case elements b ident of
        None \<Rightarrow> Inl TypeError
      | Some el \<Rightarrow> Inr (case field_value el of None \<Rightarrow> JUndefined | Some s \<Rightarrow> JStr s))"

text \<open>\<^verbatim>\<open>document.getElementById(ident).textContent = obj.key;\<close>\<close>

definition assign_textContent :: "jsstring \<Rightarrow> jsval \<Rightarrow> jsstring \<Rightarrow> effect" where
  "assign_textContent ident obj key b =
     (case elements b ident of
        None \<Rightarrow> (b, Some TypeError)
      | Some el \<Rightarrow>
          (case get_property obj key of
             Inl e \<Rightarrow> (b, Some e)
           | Inr v \<Rightarrow>
               (case text_content_value v of
                  Inl e \<Rightarrow> (b, Some e)
                | Inr s \<Rightarrow>
                    (b\<lparr>elements := (elements b)(ident \<mapsto> el\<lparr>textContent := s\<rparr>)\<rparr>, None))))"

text \<open>
  \<^verbatim>\<open>document.querySelector(sel)\<close>, decided here for two kinds of selector
  (the document in no-quirks mode): \<^verbatim>\<open>#\<close> alone is not a selector, and
  querySelector throws its SyntaxError; \<^verbatim>\<open>#\<close> followed by an ASCII identifier
  (a letter or underscore, then letters, digits, underscores and hyphens) selects the
  first element with that id, as getElementById does. Every other selector is
  left to the browser's \<open>selector_engine\<close>.
\<close>

definition hash :: jschar where
  "hash = 0x23"

definition is_letter :: "jschar \<Rightarrow> bool" where
  "is_letter c \<longleftrightarrow> (0x41 \<le> c \<and> c \<le> 0x5A) \<or> (0x61 \<le> c \<and> c \<le> 0x7A)"

definition is_digit :: "jschar \<Rightarrow> bool" where
  "is_digit c \<longleftrightarrow> 0x30 \<le> c \<and> c \<le> 0x39"

definition plain_identifier :: "jsstring \<Rightarrow> bool" where
  "plain_identifier s =
     (case s of
        [] \<Rightarrow> False
      | c # cs \<Rightarrow> (is_letter c \<or> c = 0x5F) \<and>
          list_all (\<lambda>d. is_letter d \<or> is_digit d \<or> d = 0x5F \<or> d = 0x2D) cs)"

definition querySelector :: "jsstring \<Rightarrow> browser \<Rightarrow> js_error + node option" where
  "querySelector sel b =
     (case sel of
        [] \<Rightarrow> selector_engine b sel
      | c # ident \<Rightarrow>
          if c = hash \<and> ident = [] then Inl DOMSyntaxError
          else if c = hash \<and> plain_identifier ident
            then Inr (case elements b ident of
                        None \<Rightarrow> None
                      | Some el \<Rightarrow> Some (ElementWithId ident))
          else selector_engine b sel)"

section \<open>The handlers of main.js\<close>

subsection \<open>Checkout button and anchor links (lines 6 to 9 and 20 to 26)\<close>

definition checkout_click :: effect where
  "checkout_click = and_then preventDefault (navigate (ascii ''/webhook/stripe-test''))"

text \<open>The click handler of an anchor; \<open>href\<close> is \<^verbatim>\<open>this.getAttribute('href')\<close>.\<close>

definition anchor_click :: "jsstring \<Rightarrow> effect" where
  "anchor_click href =
     and_then preventDefault
       (with_read (querySelector href)
          (\<lambda>target. case target of None \<Rightarrow> skip | Some n \<Rightarrow> scrollIntoView n))"

subsection \<open>fetchDashboardStats (lines 30 to 42)\<close>

definition stats_request :: request where
  "stats_request =
     \<lparr> url = ascii ''/api/user/stats'', http_method = ascii ''GET'', headers = [], body = None \<rparr>"

definition fetchDashboardStats :: "server \<Rightarrow> effect" where
  "fetchDashboardStats srv =
     try_catch
       (fetch_json srv stats_request
          (\<lambda>stats.
             and_then (assign_textContent (ascii ''total-calls'') stats (ascii ''total_calls''))
            (and_then (assign_textContent (ascii ''hot-leads'') stats (ascii ''hot_leads''))
            (and_then (assign_textContent (ascii ''booked-calls'') stats (ascii ''booked_calls''))
              (assign_textContent (ascii ''conversion-rate'') stats (ascii ''conversion_rate''))))))
       (console_error (ascii ''Error fetching stats:''))"

subsection \<open>Campaign form (lines 47 to 70)\<close>

definition json_headers :: "(jsstring \<times> jsstring) list" where
  "json_headers = [(ascii ''Content-Type'', ascii ''application/json'')]"

text \<open>
  The object literal of lines 50 to 54. It is built before the \<^verbatim>\<open>try\<close>: a
  missing input element throws out of the handler.
\<close>

definition formData :: "browser \<Rightarrow> js_error + jsval" where
  "formData b =
     (case field_value_of (ascii ''campaign-name'') b of
        Inl e \<Rightarrow> Inl e
      | Inr n \<Rightarrow>
     (case field_value_of (ascii ''target-niche'') b of
        Inl e \<Rightarrow> Inl e
      | Inr ni \<Rightarrow>
     (case field_value_of (ascii ''script'') b of
        Inl e \<Rightarrow> Inl e
      | Inr sc \<Rightarrow>
          Inr (JObj [(ascii ''name'', n), (ascii ''niche'', ni), (ascii ''script'', sc)]))))"

definition create_request :: "jsval \<Rightarrow> request" where
  "create_request fd =
     \<lparr> url = ascii ''/api/campaign/create'', http_method = ascii ''POST'',
       headers = json_headers, body = Some fd \<rparr>"

definition campaign_submit :: "server \<Rightarrow> effect" where
  "campaign_submit srv =
     and_then preventDefault
       (with_read formData (\<lambda>fd.
          try_catch
            (fetch_json srv (create_request fd)
               (\<lambda>data.
                  with_value (get_property data (ascii ''status'')) (\<lambda>status.
                    if strictly_equal status (ascii ''success'')
                    then with_value (get_property data (ascii ''campaign_id'')) (\<lambda>campaign_id.
                           with_value (to_string campaign_id) (\<lambda>id_string.
                             navigate (ascii ''/add-leads?campaign='' @ id_string)))
                    else skip)))
            (console_error (ascii ''Error creating campaign:''))))"

subsection \<open>launchCampaign (lines 106 to 118)\<close>

text \<open>
  The request of line 108, for the string the template literal puts in place of
  \<^verbatim>\<open>${campaignId}\<close>.
\<close>

definition launch_request :: "jsstring \<Rightarrow> request" where
  "launch_request id_string =
     \<lparr> url = ascii ''/api/campaign/'' @ id_string @ ascii ''/launch'',
       http_method = ascii ''POST'', headers = [], body = None \<rparr>"

definition launchCampaign :: "server \<Rightarrow> jsval \<Rightarrow> effect" where
  "launchCampaign srv campaignId =
     try_catch
       (with_value (to_string campaignId) (\<lambda>id_string.
          fetch_json srv (launch_request id_string)
            (\<lambda>data.
               with_value (get_property data (ascii ''status'')) (\<lambda>status.
                 if strictly_equal status (ascii ''started'')
                 then navigate (ascii ''/dashboard'')
                 else skip))))
       (console_error (ascii ''Error launching campaign:''))"

subsection \<open>Leads form (lines 76 to 103)\<close>

text \<open>\<^verbatim>\<open>urlParams.get(k)\<close>: the first value of that name, or \<^verbatim>\<open>null\<close>.\<close>

definition search_param :: "jsstring \<Rightarrow> browser \<Rightarrow> jsval" where
  "search_param k b = (case map_of (search_params b) k of None \<Rightarrow> JNull | Some s \<Rightarrow> JStr s)"

definition optional :: "jsstring option \<Rightarrow> jsval" where
  "optional v = (case v of None \<Rightarrow> JUndefined | Some s \<Rightarrow> JStr s)"

definition lead_value :: "lead \<Rightarrow> jsval" where
  "lead_value l = JObj [(ascii ''name'', optional (name l)), (ascii ''phone'', optional (phone l))]"

definition upload_request :: "jsval \<Rightarrow> lead list \<Rightarrow> request" where
  "upload_request campaignId leads =
     \<lparr> url = ascii ''/api/leads/upload'', http_method = ascii ''POST'',
       headers = json_headers,
       body = Some (JObj [(ascii ''campaignId'', campaignId),
                          (ascii ''leads'', JArr (map lead_value leads))]) \<rparr>"

text \<open>
  The text of the field is read before the \<^verbatim>\<open>try\<close>: a missing element, or one
  without a \<^verbatim>\<open>value\<close> (\<^verbatim>\<open>undefined.split\<close>), throws out of the handler.
\<close>

definition leads_submit :: "server \<Rightarrow> effect" where
  "leads_submit srv =
     and_then preventDefault (\<lambda>b.
       let campaignId = search_param (ascii ''campaign'') b
       in with_read (field_value_of (ascii ''leads-csv'')) (\<lambda>leadsText.
            case leadsText of
              JStr t \<Rightarrow>
                let leads = parse_leads t
                in try_catch
                     (fetch_json srv (upload_request campaignId leads)
                        (\<lambda>data.
                           with_value (get_property data (ascii ''status'')) (\<lambda>status.
                             if strictly_equal status (ascii ''success'')
                             then launchCampaign srv campaignId
                             else skip)))
                     (console_error (ascii ''Error uploading leads:''))
            | _ \<Rightarrow> throw TypeError) b)"

text \<open>
  A dashboard page for the examples: the four counters, each showing \<^verbatim>\<open>0\<close>,
  and nothing done yet.
\<close>

definition counter :: element where
  "counter = \<lparr> textContent = ascii ''0'', field_value = None \<rparr>"

definition dashboard_page :: browser where
  "dashboard_page =
     \<lparr> elements = [ascii ''total-calls'' \<mapsto> counter, ascii ''hot-leads'' \<mapsto> counter,
                    ascii ''booked-calls'' \<mapsto> counter, ascii ''conversion-rate'' \<mapsto> counter],
       selector_engine = (\<lambda>sel. Inr None),
       search_params = [],
       default_prevented = False,
       navigations = [],
       console = [],
       fetched = [],
       scrolled = [] \<rparr>"

text \<open>A page with the three inputs of the campaign form, filled in.\<close>

definition input :: "string \<Rightarrow> element" where
  "input s = \<lparr> textContent = [], field_value = Some (ascii s) \<rparr>"

definition campaign_page :: browser where
  "campaign_page =
     dashboard_page \<lparr> elements :=
       [ascii ''campaign-name'' \<mapsto> input ''Spring'', ascii ''target-niche'' \<mapsto> input ''dentists'',
        ascii ''script'' \<mapsto> input ''Hello''] \<rparr>"

text \<open>A page with the leads form, opened without a query string.\<close>

definition leads_page :: "string \<Rightarrow> browser" where
  "leads_page csv = dashboard_page \<lparr> elements := [ascii ''leads-csv'' \<mapsto> input csv] \<rparr>"

section \<open>Servers and data for the examples\<close>

text \<open>
  A server that answers by the URL of the request alone, from a table; a request to a
  URL the table does not list is rejected.
\<close>

definition route :: "(jsstring \<times> response) list \<Rightarrow> server" where
  "route table req = (case map_of table (url req) of None \<Rightarrow> Rejected | Some r \<Rightarrow> r)"

text \<open>The stats endpoint answering with an object that has none of the four fields.\<close>

definition empty_stats_server :: server where
  "empty_stats_server = route [(ascii ''/api/user/stats'', Json (JObj []))]"

text \<open>The stats endpoint answering with the specification's example.\<close>

definition example_stats_server :: server where
  "example_stats_server =
     route [(ascii ''/api/user/stats'',
       Json (JObj [(ascii ''total_calls'', JNum 10), (ascii ''hot_leads'', JNum 2),
                   (ascii ''booked_calls'', JNum 1), (ascii ''conversion_rate'', JStr (ascii ''20%''))]))]"

text \<open>The object the campaign form of \<open>campaign_page\<close> submits.\<close>

definition campaign_form_data :: jsval where
  "campaign_form_data =
     JObj [(ascii ''name'', JStr (ascii ''Spring'')), (ascii ''niche'', JStr (ascii ''dentists'')),
           (ascii ''script'', JStr (ascii ''Hello''))]"

text \<open>
  The create endpoint answering with the status "success" and, as
  \<^verbatim>\<open>campaign_id\<close>, an object that has a property \<^verbatim>\<open>toString\<close>.
\<close>

definition unprintable_id_server :: server where
  "unprintable_id_server =
     route [(ascii ''/api/campaign/create'',
       Json (JObj [(ascii ''status'', JStr (ascii ''success'')),
                   (ascii ''campaign_id'', JObj [(ascii ''toString'', JNum 1)])]))]"

text \<open>
  Three servers for the leads form: each accepts the upload; the first knows no launch
  endpoint, the second starts the campaign \<^verbatim>\<open>null\<close>, the third answers the
  launch with the status \<^verbatim>\<open>error\<close>.
\<close>

definition upload_only_server :: server where
  "upload_only_server =
     route [(ascii ''/api/leads/upload'', Json (JObj [(ascii ''status'', JStr (ascii ''success''))]))]"

definition started_server :: server where
  "started_server =
     route [(ascii ''/api/leads/upload'', Json (JObj [(ascii ''status'', JStr (ascii ''success''))])),
            (ascii ''/api/campaign/null/launch'', Json (JObj [(ascii ''status'', JStr (ascii ''started''))]))]"

definition launch_error_server :: server where
  "launch_error_server =
     route [(ascii ''/api/leads/upload'', Json (JObj [(ascii ''status'', JStr (ascii ''success''))])),
            (ascii ''/api/campaign/null/launch'', Json (JObj [(ascii ''status'', JStr (ascii ''error''))]))]"

section \<open>Properties of lead parsing\<close>

lemma js_split_not_Nil: "js_split sep s \<noteq> []"
  by (induction s) (simp_all add: Let_def)

lemma length_js_split: "length (js_split sep s) = Suc (count_list s sep)"
proof (induction s)
  case Nil
  show ?case by simp
next
  case (Cons c cs)
  have "js_split sep cs \<noteq> []" by (rule js_split_not_Nil)
  then have "length (tl (js_split sep cs)) = count_list cs sep"
    using Cons.IH by (cases "js_split sep cs") simp_all
  then show ?case using Cons.IH by (simp add: Let_def)
qed

lemma js_split_no_sep: "sep \<notin> set a \<Longrightarrow> js_split sep a = [a]"
  by (induction a) (auto simp: Let_def)

lemma js_split_append_sep:
  "sep \<notin> set a \<Longrightarrow> js_split sep (a @ sep # r) = a # js_split sep r"
  by (induction a) (auto simp: Let_def)

lemma keep_iff:
  "truthy (name (parse_line l)) \<and> truthy (phone (parse_line l)) \<longleftrightarrow> both_tokens_nonempty l"
  by (auto simp: parse_line_def both_tokens_nonempty_def truthy_def element_at_def Let_def
      split: list.splits)

lemma parse_line_kept:
  "both_tokens_nonempty l \<Longrightarrow>
   parse_line l = \<lparr> name = Some (js_trim (js_split comma l ! 0)),
                    phone = Some (js_trim (js_split comma l ! 1)) \<rparr>"
  by (auto simp: parse_line_def both_tokens_nonempty_def element_at_def Let_def
      split: list.splits)

lemma leads_of_lines_filter:
  "leads_of_lines ls =
   map (\<lambda>l. \<lparr> name = Some (js_trim (js_split comma l ! 0)),
                phone = Some (js_trim (js_split comma l ! 1)) \<rparr>)
     (filter both_tokens_nonempty ls)"
proof -
  have "leads_of_lines ls = map parse_line (filter both_tokens_nonempty ls)"
    unfolding leads_of_lines_def filter_map comp_def keep_iff ..
  also have "\<dots> = map (\<lambda>l. \<lparr> name = Some (js_trim (js_split comma l ! 0)),
                phone = Some (js_trim (js_split comma l ! 1)) \<rparr>) (filter both_tokens_nonempty ls)"
    by (rule map_cong) (simp_all add: parse_line_kept)
  finally show ?thesis .
qed

lemma parse_leads_example:
  "parse_leads (ascii ''Alice, 555-1111\<newline>Bob,555-2222\<newline>,\<newline>Carol,'')
   = [\<lparr>name = Some (ascii ''Alice''), phone = Some (ascii ''555-1111'')\<rparr>,
      \<lparr>name = Some (ascii ''Bob''), phone = Some (ascii ''555-2222'')\<rparr>]"
  by (simp add: parse_leads_def leads_of_lines_def parse_line_def ascii_def newline_def comma_def
     element_at_def truthy_def js_trim_def trimmable_def is_white_space_def is_line_terminator_def)

text \<open>
  Claim C1. A text with N newline-separated lines (one more than it has newlines) yields
  at most N leads. The leads are, in the order of their lines, exactly the lines both of
  whose first two comma-split tokens are non-empty after trimming, each as the pair of
  its two trimmed tokens. The text of the specification's example yields Alice and Bob.
\<close>

theorem parse_leads_entries:
  "length (js_split newline t) = Suc (count_list t newline)
   \<and> length (parse_leads t) \<le> length (js_split newline t)
   \<and> parse_leads t =
       map (\<lambda>l. \<lparr> name = Some (js_trim (js_split comma l ! 0)),
                    phone = Some (js_trim (js_split comma l ! 1)) \<rparr>)
         (filter both_tokens_nonempty (js_split newline t))
   \<and> parse_leads (ascii ''Alice, 555-1111\<newline>Bob,555-2222\<newline>,\<newline>Carol,'')
       = [\<lparr>name = Some (ascii ''Alice''), phone = Some (ascii ''555-1111'')\<rparr>,
          \<lparr>name = Some (ascii ''Bob''), phone = Some (ascii ''555-2222'')\<rparr>]"
proof -
  have n: "length (js_split newline t) = Suc (count_list t newline)"
    by (rule length_js_split)
  have m: "parse_leads t =
       map (\<lambda>l. \<lparr> name = Some (js_trim (js_split comma l ! 0)),
                    phone = Some (js_trim (js_split comma l ! 1)) \<rparr>)
         (filter both_tokens_nonempty (js_split newline t))"
    unfolding parse_leads_def by (rule leads_of_lines_filter)
  have "length (parse_leads t) \<le> length (js_split newline t)"
    unfolding m by simp
  with n m parse_leads_example show ?thesis by blast
qed

lemma parse_line_no_comma:
  "comma \<notin> set l \<Longrightarrow> parse_line l = \<lparr> name = Some (js_trim l), phone = None \<rparr>"
  by (simp add: parse_line_def js_split_no_sep element_at_def)

lemma parse_line_commas:
  assumes "comma \<notin> set a" "comma \<notin> set b"
  shows "parse_line (a @ comma # b) = \<lparr> name = Some (js_trim a), phone = Some (js_trim b) \<rparr>"
    and "parse_line (a @ comma # b @ comma # rest) = \<lparr> name = Some (js_trim a), phone = Some (js_trim b) \<rparr>"
  using assms by (simp_all add: parse_line_def js_split_append_sep js_split_no_sep element_at_def)

lemma leads_of_lines_append:
  "leads_of_lines (xs @ ys) = leads_of_lines xs @ leads_of_lines ys"
  by (simp add: leads_of_lines_def)

lemma leads_of_lines_Cons:
  "leads_of_lines (l # ys) = leads_of_lines [l] @ leads_of_lines ys"
  by (simp add: leads_of_lines_def)

text \<open>
  Claim C2. A line with no comma has an undefined phone and is dropped: the leads are
  the same as if the line were not there. A line with commas gives the text before the
  first comma as name and the text between the first and the second comma as phone,
  both trimmed; whatever follows the second comma does not change the result.
\<close>

theorem comma_policy:
  "(comma \<notin> set l \<longrightarrow>
      phone (parse_line l) = None \<and> leads_of_lines (xs @ l # ys) = leads_of_lines (xs @ ys))
   \<and> (comma \<notin> set a \<and> comma \<notin> set b \<longrightarrow>
      parse_line (a @ comma # b) = \<lparr> name = Some (js_trim a), phone = Some (js_trim b) \<rparr>
      \<and> parse_line (a @ comma # b @ comma # rest) = parse_line (a @ comma # b)
      \<and> leads_of_lines (xs @ (a @ comma # b @ comma # rest) # ys)
          = leads_of_lines (xs @ (a @ comma # b) # ys))"
proof (intro conjI impI)
  assume l: "comma \<notin> set l"
  then show "phone (parse_line l) = None" by (simp add: parse_line_no_comma)
  have "leads_of_lines [l] = []"
    using l by (simp add: leads_of_lines_def parse_line_no_comma truthy_def)
  then show "leads_of_lines (xs @ l # ys) = leads_of_lines (xs @ ys)"
    by (simp add: leads_of_lines_append leads_of_lines_Cons [of l ys])
next
  assume ab: "comma \<notin> set a \<and> comma \<notin> set b"
  then show "parse_line (a @ comma # b) = \<lparr> name = Some (js_trim a), phone = Some (js_trim b) \<rparr>"
    by (simp add: parse_line_commas)
  from ab show eq: "parse_line (a @ comma # b @ comma # rest) = parse_line (a @ comma # b)"
    by (simp add: parse_line_commas)
  show "leads_of_lines (xs @ (a @ comma # b @ comma # rest) # ys)
          = leads_of_lines (xs @ (a @ comma # b) # ys)"
    unfolding leads_of_lines_def by (simp add: eq)
qed

theorem comma_policy_witness:
  "comma \<notin> set (ascii ''JustAName'')
   \<and> phone (parse_line (ascii ''JustAName'')) = None
   \<and> leads_of_lines [ascii ''A,1'', ascii ''JustAName'', ascii ''B,2'']
       = leads_of_lines [ascii ''A,1'', ascii ''B,2'']
   \<and> comma \<notin> set (ascii ''Ann '') \<and> comma \<notin> set (ascii '' 555'')
   \<and> parse_line (ascii ''Ann , 555'') = \<lparr> name = Some (ascii ''Ann''), phone = Some (ascii ''555'') \<rparr>
   \<and> parse_line (ascii ''Ann , 555,x,y'') = parse_line (ascii ''Ann , 555'')
   \<and> leads_of_lines [ascii ''Ann , 555,x,y''] = leads_of_lines [ascii ''Ann , 555'']"
proof -
  have c1: "comma \<notin> set (ascii ''JustAName'')"
    by (simp add: ascii_def comma_def)
  have c2: "comma \<notin> set (ascii ''Ann '') \<and> comma \<notin> set (ascii '' 555'')"
    by (simp add: ascii_def comma_def)
  have t1: "js_trim (ascii ''Ann '') = ascii ''Ann''" "js_trim (ascii '' 555'') = ascii ''555''"
    by (simp_all add: ascii_def js_trim_def trimmable_def is_white_space_def is_line_terminator_def)
  have s: "ascii ''Ann '' @ comma # ascii '' 555'' = ascii ''Ann , 555''"
      "ascii ''Ann '' @ comma # ascii '' 555'' @ comma # ascii ''x,y'' = ascii ''Ann , 555,x,y''"
    by (simp_all add: ascii_def comma_def)
  show ?thesis
    using comma_policy [of "ascii ''JustAName''" "[ascii ''A,1'']" "[ascii ''B,2'']"
        "ascii ''Ann ''" "ascii '' 555''" "ascii ''x,y''"] 
      comma_policy [of "ascii ''JustAName''" "[]" "[]"
        "ascii ''Ann ''" "ascii '' 555''" "ascii ''x,y''"] c1 c2
    by (simp add: t1 s)
qed

section \<open>Properties of the handlers\<close>

declare own_property_def [simp]

lemma of_char_jschar_eq [simp]: "(of_char c :: jschar) = of_char d \<longleftrightarrow> c = d"
proof -
  have lt: "\<And>c::char. (of_char c :: nat) < 2 ^ 16"
  proof -
    fix c :: char
    have "(of_char c :: nat) < 256" by (rule nat_of_char_less_256)
    also have "(256::nat) < 2 ^ 16" by simp
    finally show "(of_char c :: nat) < 2 ^ 16" .
  qed
  have "(of_char c :: jschar) = of_nat (of_char c)" "(of_char d :: jschar) = of_nat (of_char d)"
    by (simp_all add: of_nat_of_char)
  then have "(of_char c :: jschar) = of_char d \<longleftrightarrow>
      take_bit 16 (of_char c :: nat) = take_bit 16 (of_char d :: nat)"
    by (simp add: word_of_nat_eq_iff del: of_nat_of_char)
  also have "\<dots> \<longleftrightarrow> (of_char c :: nat) = of_char d"
    using lt [of c] lt [of d] by (simp add: take_bit_nat_eq_self)
  also have "\<dots> \<longleftrightarrow> c = d"
    by (simp add: of_char_eq_iff)
  finally show ?thesis .
qed

lemma ascii_eq_iff [simp]: "ascii s = ascii t \<longleftrightarrow> s = t"
  unfolding ascii_def by (rule inj_map_eq_map) (simp add: inj_on_def)

lemma ascii_append [simp]: "ascii s @ ascii t = ascii (s @ t)"
  by (simp add: ascii_def)

lemma ascii_Nil [simp]: "ascii [] = []"
  by (simp add: ascii_def)

lemmas statement_defs =
  skip_def throw_def and_then_def try_catch_def with_value_def with_read_def
  preventDefault_def navigate_def console_error_def scrollIntoView_def fetch_json_def

lemma stats_rejected:
  "srv stats_request = Rejected \<Longrightarrow>
   fetchDashboardStats srv b =
     (b\<lparr>fetched := fetched b @ [stats_request],
        console := console b @ [(ascii ''Error fetching stats:'', TypeError)]\<rparr>, None)"
  by (simp add: fetchDashboardStats_def statement_defs)

lemma stats_not_json:
  "srv stats_request = NotJson \<Longrightarrow>
   fetchDashboardStats srv b =
     (b\<lparr>fetched := fetched b @ [stats_request],
        console := console b @ [(ascii ''Error fetching stats:'', SyntaxError)]\<rparr>, None)"
  by (simp add: fetchDashboardStats_def statement_defs)

lemma try_catch_log_no_throw: "snd (try_catch block (console_error msg) b) = None"
  by (simp add: try_catch_def console_error_def split: prod.splits option.splits)

lemma stats_never_throws: "snd (fetchDashboardStats srv b) = None"
  unfolding fetchDashboardStats_def by (rule try_catch_log_no_throw)

lemma stats_json:
  assumes "srv stats_request = Json stats"
    and "get_property stats (ascii ''total_calls'') = Inr v1"
    and "get_property stats (ascii ''hot_leads'') = Inr v2"
    and "get_property stats (ascii ''booked_calls'') = Inr v3"
    and "get_property stats (ascii ''conversion_rate'') = Inr v4"
    and "text_content_value v1 = Inr s1"
    and "text_content_value v2 = Inr s2"
    and "text_content_value v3 = Inr s3"
    and "text_content_value v4 = Inr s4"
    and "elements b (ascii ''total-calls'') = Some e1"
    and "elements b (ascii ''hot-leads'') = Some e2"
    and "elements b (ascii ''booked-calls'') = Some e3"
    and "elements b (ascii ''conversion-rate'') = Some e4"
  shows "fetchDashboardStats srv b =
     (b\<lparr>fetched := fetched b @ [stats_request],
        elements := (elements b)
          (ascii ''total-calls'' \<mapsto> e1\<lparr>textContent := s1\<rparr>,
           ascii ''hot-leads'' \<mapsto> e2\<lparr>textContent := s2\<rparr>,
           ascii ''booked-calls'' \<mapsto> e3\<lparr>textContent := s3\<rparr>,
           ascii ''conversion-rate'' \<mapsto> e4\<lparr>textContent := s4\<rparr>)\<rparr>, None)"
  using assms
  by (simp add: fetchDashboardStats_def statement_defs assign_textContent_def)

lemma field_value_of_prevented [simp]:
  "field_value_of ident (b\<lparr>default_prevented := x\<rparr>) = field_value_of ident b"
  by (simp add: field_value_of_def)

lemma formData_prevented [simp]:
  "formData (b\<lparr>default_prevented := x\<rparr>) = formData b"
  by (simp add: formData_def cong: sum.case_cong)

lemma campaign_submit_result:
  assumes "formData b = Inr fd"
  shows "campaign_submit srv b =
     (let b1 = b\<lparr>default_prevented := True, fetched := fetched b @ [create_request fd]\<rparr>;
          logged = (\<lambda>e. (b1\<lparr>console := console b1 @ [(ascii ''Error creating campaign:'', e)]\<rparr>, None))
      in case srv (create_request fd) of
           Rejected \<Rightarrow> logged TypeError
         | NotJson \<Rightarrow> logged SyntaxError
         | Json data \<Rightarrow>
             (case get_property data (ascii ''status'') of
                Inl e \<Rightarrow> logged e
              | Inr status \<Rightarrow>
                  if status = JStr (ascii ''success'')
                  then (case get_property data (ascii ''campaign_id'') of
                          Inl e \<Rightarrow> logged e
                        | Inr campaign_id \<Rightarrow>
                            (case to_string campaign_id of
                               Inl e \<Rightarrow> logged e
                             | Inr id_string \<Rightarrow>
                                 (b1\<lparr>navigations := navigations b1 @
                                      [ascii ''/add-leads?campaign='' @ id_string]\<rparr>, None)))
                  else (b1, None)))"
  using assms
  by (simp add: campaign_submit_def statement_defs strictly_equal_def Let_def
      split: response.splits sum.splits)

lemma campaign_submit_no_form:
  "formData b = Inl e \<Longrightarrow> campaign_submit srv b = (b\<lparr>default_prevented := True\<rparr>, Some e)"
  by (simp add: campaign_submit_def statement_defs)

lemma launchCampaign_result:
  "launchCampaign srv campaignId b =
     (case to_string campaignId of
        Inl e \<Rightarrow> (b\<lparr>console := console b @ [(ascii ''Error launching campaign:'', e)]\<rparr>, None)
      | Inr id_string \<Rightarrow>
         (let b1 = b\<lparr>fetched := fetched b @ [launch_request id_string]\<rparr>;
              logged = (\<lambda>e. (b1\<lparr>console := console b1 @ [(ascii ''Error launching campaign:'', e)]\<rparr>, None))
          in case srv (launch_request id_string) of
               Rejected \<Rightarrow> logged TypeError
             | NotJson \<Rightarrow> logged SyntaxError
             | Json data \<Rightarrow>
                 (case get_property data (ascii ''status'') of
                    Inl e \<Rightarrow> logged e
                  | Inr status \<Rightarrow>
                      if status = JStr (ascii ''started'')
                      then (b1\<lparr>navigations := navigations b1 @ [ascii ''/dashboard'']\<rparr>, None)
                      else (b1, None))))"
  by (simp add: launchCampaign_def statement_defs strictly_equal_def Let_def
      split: response.splits sum.splits)

lemma launchCampaign_no_throw: "snd (launchCampaign srv campaignId b) = None"
  unfolding launchCampaign_def by (rule try_catch_log_no_throw)

lemma leads_submit_result:
  assumes "elements b (ascii ''leads-csv'') = Some el" and "field_value el = Some t"
  shows "leads_submit srv b =
     (let campaignId = search_param (ascii ''campaign'') b;
          up = upload_request campaignId (parse_leads t);
          b1 = b\<lparr>default_prevented := True, fetched := fetched b @ [up]\<rparr>;
          logged = (\<lambda>e. (b1\<lparr>console := console b1 @ [(ascii ''Error uploading leads:'', e)]\<rparr>, None))
      in case srv up of
           Rejected \<Rightarrow> logged TypeError
         | NotJson \<Rightarrow> logged SyntaxError
         | Json data \<Rightarrow>
             (case get_property data (ascii ''status'') of
                Inl e \<Rightarrow> logged e
              | Inr status \<Rightarrow>
                  if status = JStr (ascii ''success'')
                  then launchCampaign srv campaignId b1
                  else (b1, None)))"
proof -
  let ?cid = "search_param (ascii ''campaign'') b"
  let ?up = "upload_request ?cid (parse_leads t)"
  let ?b1 = "b\<lparr>default_prevented := True, fetched := fetched b @ [?up]\<rparr>"
  have run: "leads_submit srv b =
     try_catch
       (fetch_json srv ?up
          (\<lambda>data.
             with_value (get_property data (ascii ''status'')) (\<lambda>status.
               if strictly_equal status (ascii ''success'')
               then launchCampaign srv ?cid
               else skip)))
       (console_error (ascii ''Error uploading leads:'')) (b\<lparr>default_prevented := True\<rparr>)"
    using assms
    by (simp add: leads_submit_def and_then_def preventDefault_def with_read_def with_value_def
        field_value_of_def search_param_def Let_def cong: sum.case_cong if_cong)
  show ?thesis
  proof (cases "srv ?up")
    case Rejected
    then show ?thesis
      unfolding run by (simp add: statement_defs Let_def)
  next
    case NotJson
    then show ?thesis
      unfolding run by (simp add: statement_defs Let_def)
  next
    case (Json data)
    show ?thesis
    proof (cases "get_property data (ascii ''status'')")
      case (Inl e)
      with Json show ?thesis
        unfolding run by (simp add: statement_defs Let_def)
    next
      case (Inr status)
      show ?thesis
      proof (cases "status = JStr (ascii ''success'')")
        case False
        with Json Inr show ?thesis
          unfolding run by (simp add: statement_defs strictly_equal_def Let_def)
      next
        case True
        obtain b2 where b2: "launchCampaign srv ?cid ?b1 = (b2, None)"
          using launchCampaign_no_throw [of srv ?cid ?b1]
          by (cases "launchCampaign srv ?cid ?b1") simp
        with Json Inr True show ?thesis
          unfolding run by (simp add: try_catch_def fetch_json_def with_value_def
              strictly_equal_def Let_def)
      qed
    qed
  qed
qed

lemmas page_defs =
  dashboard_page_def campaign_page_def leads_page_def counter_def input_def route_def
  stats_request_def create_request_def upload_request_def launch_request_def json_headers_def

text \<open>
  Claim C3, as the code has it. When the stats request is rejected or the body of the
  response is not JSON, the handler logs the error and changes nothing else: the texts
  of the page stay as they were. No exception escapes the handler, whatever the server
  answers. A JSON object that lacks the four fields is no failure for the handler: with
  the four elements in the page nothing is logged, and the text of each of them becomes
  the empty string.
\<close>

theorem stats_failure_handling:
  "(srv stats_request = Rejected \<longrightarrow>
      fetchDashboardStats srv b =
        (b\<lparr>fetched := fetched b @ [stats_request],
           console := console b @ [(ascii ''Error fetching stats:'', TypeError)]\<rparr>, None))
   \<and> (srv stats_request = NotJson \<longrightarrow>
      fetchDashboardStats srv b =
        (b\<lparr>fetched := fetched b @ [stats_request],
           console := console b @ [(ascii ''Error fetching stats:'', SyntaxError)]\<rparr>, None))
   \<and> snd (fetchDashboardStats srv b) = None
   \<and> (srv stats_request = Json (JObj kvs)
        \<and> own_property kvs (ascii ''total_calls'') = None
        \<and> own_property kvs (ascii ''hot_leads'') = None
        \<and> own_property kvs (ascii ''booked_calls'') = None
        \<and> own_property kvs (ascii ''conversion_rate'') = None
        \<and> elements b (ascii ''total-calls'') = Some e1
        \<and> elements b (ascii ''hot-leads'') = Some e2
        \<and> elements b (ascii ''booked-calls'') = Some e3
        \<and> elements b (ascii ''conversion-rate'') = Some e4 \<longrightarrow>
      fetchDashboardStats srv b =
        (b\<lparr>fetched := fetched b @ [stats_request],
           elements := (elements b)
             (ascii ''total-calls'' \<mapsto> e1\<lparr>textContent := []\<rparr>,
              ascii ''hot-leads'' \<mapsto> e2\<lparr>textContent := []\<rparr>,
              ascii ''booked-calls'' \<mapsto> e3\<lparr>textContent := []\<rparr>,
              ascii ''conversion-rate'' \<mapsto> e4\<lparr>textContent := []\<rparr>)\<rparr>, None))"
proof (intro conjI impI)
  assume "srv stats_request = Rejected"
  then show "fetchDashboardStats srv b =
        (b\<lparr>fetched := fetched b @ [stats_request],
           console := console b @ [(ascii ''Error fetching stats:'', TypeError)]\<rparr>, None)"
    by (rule stats_rejected)
next
  assume "srv stats_request = NotJson"
  then show "fetchDashboardStats srv b =
        (b\<lparr>fetched := fetched b @ [stats_request],
           console := console b @ [(ascii ''Error fetching stats:'', SyntaxError)]\<rparr>, None)"
    by (rule stats_not_json)
next
  show "snd (fetchDashboardStats srv b) = None"
    by (rule stats_never_throws)
next
  assume h: "srv stats_request = Json (JObj kvs)
        \<and> own_property kvs (ascii ''total_calls'') = None
        \<and> own_property kvs (ascii ''hot_leads'') = None
        \<and> own_property kvs (ascii ''booked_calls'') = None
        \<and> own_property kvs (ascii ''conversion_rate'') = None
        \<and> elements b (ascii ''total-calls'') = Some e1
        \<and> elements b (ascii ''hot-leads'') = Some e2
        \<and> elements b (ascii ''booked-calls'') = Some e3
        \<and> elements b (ascii ''conversion-rate'') = Some e4"
  show "fetchDashboardStats srv b =
        (b\<lparr>fetched := fetched b @ [stats_request],
           elements := (elements b)
             (ascii ''total-calls'' \<mapsto> e1\<lparr>textContent := []\<rparr>,
              ascii ''hot-leads'' \<mapsto> e2\<lparr>textContent := []\<rparr>,
              ascii ''booked-calls'' \<mapsto> e3\<lparr>textContent := []\<rparr>,
              ascii ''conversion-rate'' \<mapsto> e4\<lparr>textContent := []\<rparr>)\<rparr>, None)"
    by (rule stats_json [where stats = "JObj kvs" and ?v1.0 = JUndefined and ?v2.0 = JUndefined
          and ?v3.0 = JUndefined and ?v4.0 = JUndefined])
      (use h in \<open>simp_all add: text_content_value_def\<close>)
qed

lemma dashboard_elements:
  "elements dashboard_page (ascii ''total-calls'') = Some counter"
  "elements dashboard_page (ascii ''hot-leads'') = Some counter"
  "elements dashboard_page (ascii ''booked-calls'') = Some counter"
  "elements dashboard_page (ascii ''conversion-rate'') = Some counter"
  by (simp_all add: dashboard_page_def)

theorem stats_failure_handling_witness:
  "route [] stats_request = Rejected
   \<and> console (fst (fetchDashboardStats (route []) dashboard_page))
       = [(ascii ''Error fetching stats:'', TypeError)]
   \<and> elements (fst (fetchDashboardStats (route []) dashboard_page)) = elements dashboard_page
   \<and> route [(ascii ''/api/user/stats'', NotJson)] stats_request = NotJson
   \<and> console (fst (fetchDashboardStats (route [(ascii ''/api/user/stats'', NotJson)]) dashboard_page))
       = [(ascii ''Error fetching stats:'', SyntaxError)]
   \<and> elements (fst (fetchDashboardStats (route [(ascii ''/api/user/stats'', NotJson)]) dashboard_page))
       = elements dashboard_page
   \<and> snd (fetchDashboardStats (route []) dashboard_page) = None
   \<and> route [(ascii ''/api/user/stats'', Json (JObj [(ascii ''calls'', JNum 7)]))] stats_request
       = Json (JObj [(ascii ''calls'', JNum 7)])
   \<and> console (fst (fetchDashboardStats
         (route [(ascii ''/api/user/stats'', Json (JObj [(ascii ''calls'', JNum 7)]))])
         dashboard_page)) = []
   \<and> map (\<lambda>ident. map_option textContent
          (elements (fst (fetchDashboardStats
             (route [(ascii ''/api/user/stats'', Json (JObj [(ascii ''calls'', JNum 7)]))])
             dashboard_page)) ident))
       [ascii ''total-calls'', ascii ''hot-leads'', ascii ''booked-calls'', ascii ''conversion-rate'']
       = [Some [], Some [], Some [], Some []]"
proof -
  have a: "route [] stats_request = Rejected"
    by (simp add: route_def)
  have b: "route [(ascii ''/api/user/stats'', NotJson)] stats_request = NotJson"
    by (simp add: route_def stats_request_def)
  have c: "route [(ascii ''/api/user/stats'', Json (JObj [(ascii ''calls'', JNum 7)]))] stats_request
       = Json (JObj [(ascii ''calls'', JNum 7)])"
    by (simp add: route_def stats_request_def)
  have k: "own_property [(ascii ''calls'', JNum 7)] (ascii ''total_calls'') = None"
      "own_property [(ascii ''calls'', JNum 7)] (ascii ''hot_leads'') = None"
      "own_property [(ascii ''calls'', JNum 7)] (ascii ''booked_calls'') = None"
      "own_property [(ascii ''calls'', JNum 7)] (ascii ''conversion_rate'') = None"
    by simp_all
  have p: "console dashboard_page = []"
    by (simp add: dashboard_page_def)
  note w1 = stats_failure_handling [of "route []" dashboard_page "[]" counter counter counter counter]
  note w2 = stats_failure_handling [of "route [(ascii ''/api/user/stats'', NotJson)]" dashboard_page
      "[]" counter counter counter counter]
  note w3 = stats_failure_handling
      [of "route [(ascii ''/api/user/stats'', Json (JObj [(ascii ''calls'', JNum 7)]))]"
        dashboard_page "[(ascii ''calls'', JNum 7)]" counter counter counter counter]
  from w1 a have r1: "fetchDashboardStats (route []) dashboard_page =
        (dashboard_page\<lparr>fetched := fetched dashboard_page @ [stats_request],
           console := console dashboard_page @ [(ascii ''Error fetching stats:'', TypeError)]\<rparr>, None)"
    by blast
  from w2 b have r2: "fetchDashboardStats (route [(ascii ''/api/user/stats'', NotJson)]) dashboard_page =
        (dashboard_page\<lparr>fetched := fetched dashboard_page @ [stats_request],
           console := console dashboard_page @ [(ascii ''Error fetching stats:'', SyntaxError)]\<rparr>, None)"
    by blast
  from w3 c k dashboard_elements have r3:
    "fetchDashboardStats
         (route [(ascii ''/api/user/stats'', Json (JObj [(ascii ''calls'', JNum 7)]))]) dashboard_page =
        (dashboard_page\<lparr>fetched := fetched dashboard_page @ [stats_request],
           elements := (elements dashboard_page)
             (ascii ''total-calls'' \<mapsto> counter\<lparr>textContent := []\<rparr>,
              ascii ''hot-leads'' \<mapsto> counter\<lparr>textContent := []\<rparr>,
              ascii ''booked-calls'' \<mapsto> counter\<lparr>textContent := []\<rparr>,
              ascii ''conversion-rate'' \<mapsto> counter\<lparr>textContent := []\<rparr>)\<rparr>, None)"
    by blast
  show ?thesis
    using a b c by (simp add: r1 r2 r3 p)
qed

theorem stats_missing_fields_counterexample:
  "console (fst (fetchDashboardStats empty_stats_server dashboard_page)) = []
   \<and> map_option textContent (elements dashboard_page (ascii ''total-calls'')) = Some (ascii ''0'')
   \<and> map_option textContent
        (elements (fst (fetchDashboardStats empty_stats_server dashboard_page)) (ascii ''total-calls''))
       = Some []"
  by (simp add: empty_stats_server_def fetchDashboardStats_def statement_defs assign_textContent_def
      page_defs text_content_value_def)

text \<open>
  Claim C5. When the stats response is the object with \<^verbatim>\<open>total_calls\<close> 10,
  \<^verbatim>\<open>hot_leads\<close> 2, \<^verbatim>\<open>booked_calls\<close> 1 and
  \<^verbatim>\<open>conversion_rate\<close> "20%", and the page has the four elements, their
  texts become 10, 2, 1 and 20%, nothing else changes in the page but the record of the
  request, nothing is logged and nothing is thrown.
\<close>

theorem stats_example_shown:
  assumes "srv stats_request =
      Json (JObj [(ascii ''total_calls'', JNum 10), (ascii ''hot_leads'', JNum 2),
                  (ascii ''booked_calls'', JNum 1), (ascii ''conversion_rate'', JStr (ascii ''20%''))])"
    and "elements b (ascii ''total-calls'') = Some e1"
    and "elements b (ascii ''hot-leads'') = Some e2"
    and "elements b (ascii ''booked-calls'') = Some e3"
    and "elements b (ascii ''conversion-rate'') = Some e4"
  shows "fetchDashboardStats srv b =
     (b\<lparr>fetched := fetched b @ [stats_request],
        elements := (elements b)
          (ascii ''total-calls'' \<mapsto> e1\<lparr>textContent := ascii ''10''\<rparr>,
           ascii ''hot-leads'' \<mapsto> e2\<lparr>textContent := ascii ''2''\<rparr>,
           ascii ''booked-calls'' \<mapsto> e3\<lparr>textContent := ascii ''1''\<rparr>,
           ascii ''conversion-rate'' \<mapsto> e4\<lparr>textContent := ascii ''20%''\<rparr>)\<rparr>, None)"
proof -
  have t: "text_content_value (JNum 10) = Inr (ascii ''10'')"
    "text_content_value (JNum 2) = Inr (ascii ''2'')"
    "text_content_value (JNum 1) = Inr (ascii ''1'')"
    "text_content_value (JStr (ascii ''20%'')) = Inr (ascii ''20%'')"
    by (simp_all add: text_content_value_def number_to_string_def digits.simps ascii_def)
  show ?thesis
    by (rule stats_json [where stats = "JObj [(ascii ''total_calls'', JNum 10),
          (ascii ''hot_leads'', JNum 2), (ascii ''booked_calls'', JNum 1),
          (ascii ''conversion_rate'', JStr (ascii ''20%''))]" and ?v1.0 = "JNum 10"
          and ?v2.0 = "JNum 2" and ?v3.0 = "JNum 1" and ?v4.0 = "JStr (ascii ''20%'')"])
      (use assms t in simp_all)
qed

theorem stats_example_shown_witness:
  "map (\<lambda>ident. map_option textContent
          (elements (fst (fetchDashboardStats example_stats_server dashboard_page)) ident))
     [ascii ''total-calls'', ascii ''hot-leads'', ascii ''booked-calls'', ascii ''conversion-rate'']
   = [Some (ascii ''10''), Some (ascii ''2''), Some (ascii ''1''), Some (ascii ''20%'')]
   \<and> console (fst (fetchDashboardStats example_stats_server dashboard_page)) = []"
proof -
  have s: "example_stats_server stats_request =
      Json (JObj [(ascii ''total_calls'', JNum 10), (ascii ''hot_leads'', JNum 2),
                  (ascii ''booked_calls'', JNum 1), (ascii ''conversion_rate'', JStr (ascii ''20%''))])"
    by (simp add: example_stats_server_def route_def stats_request_def)
  show ?thesis
    using stats_example_shown [of example_stats_server dashboard_page counter counter counter counter]
      s dashboard_elements
    by (simp add: dashboard_page_def)
qed

text \<open>
  Claim C4. With the three inputs of the campaign form in the page: when the response
  parses to the object with \<^verbatim>\<open>status\<close> "success" and
  \<^verbatim>\<open>campaign_id\<close> "42", the handler navigates to
  \<^verbatim>\<open>/add-leads?campaign=42\<close>; when it parses to a value whose
  \<^verbatim>\<open>status\<close> is not the string "success", there is no navigation.
\<close>

theorem campaign_redirect:
  "(formData b = Inr fd
      \<and> srv (create_request fd) =
          Json (JObj [(ascii ''status'', JStr (ascii ''success'')),
                      (ascii ''campaign_id'', JStr (ascii ''42''))]) \<longrightarrow>
      navigations (fst (campaign_submit srv b)) = navigations b @ [ascii ''/add-leads?campaign=42''])
   \<and> (formData b = Inr fd \<and> srv (create_request fd) = Json data
      \<and> get_property data (ascii ''status'') \<noteq> Inr (JStr (ascii ''success'')) \<longrightarrow>
      navigations (fst (campaign_submit srv b)) = navigations b)"
proof (intro conjI impI)
  assume "formData b = Inr fd
      \<and> srv (create_request fd) =
          Json (JObj [(ascii ''status'', JStr (ascii ''success'')),
                      (ascii ''campaign_id'', JStr (ascii ''42''))])"
  then show "navigations (fst (campaign_submit srv b)) = navigations b @ [ascii ''/add-leads?campaign=42'']"
    by (simp add: campaign_submit_result [of b fd srv] Let_def)
next
  assume "formData b = Inr fd \<and> srv (create_request fd) = Json data
      \<and> get_property data (ascii ''status'') \<noteq> Inr (JStr (ascii ''success''))"
  then show "navigations (fst (campaign_submit srv b)) = navigations b"
    by (auto simp: campaign_submit_result [of b fd srv] Let_def split: sum.splits)
qed

lemma campaign_page_formData: "formData campaign_page = Inr campaign_form_data"
  by (simp add: formData_def field_value_of_def campaign_page_def dashboard_page_def input_def
      campaign_form_data_def)

lemma route_create:
  "route [(ascii ''/api/campaign/create'', r)] (create_request fd) = r"
  by (simp add: route_def create_request_def)

theorem campaign_redirect_witness:
  "formData campaign_page = Inr campaign_form_data
   \<and> navigations (fst (campaign_submit
        (route [(ascii ''/api/campaign/create'',
           Json (JObj [(ascii ''status'', JStr (ascii ''success'')),
                       (ascii ''campaign_id'', JStr (ascii ''42''))]))]) campaign_page))
       = [ascii ''/add-leads?campaign=42'']
   \<and> get_property (JObj [(ascii ''status'', JStr (ascii ''error''))]) (ascii ''status'')
       \<noteq> Inr (JStr (ascii ''success''))
   \<and> navigations (fst (campaign_submit
        (route [(ascii ''/api/campaign/create'', Json (JObj [(ascii ''status'', JStr (ascii ''error''))]))])
        campaign_page)) = []"
proof -
  have n: "navigations campaign_page = []"
    by (simp add: campaign_page_def dashboard_page_def)
  have g: "get_property (JObj [(ascii ''status'', JStr (ascii ''error''))]) (ascii ''status'')
       \<noteq> Inr (JStr (ascii ''success''))"
    by simp
  show ?thesis
    using campaign_redirect [of campaign_page campaign_form_data
        "route [(ascii ''/api/campaign/create'',
           Json (JObj [(ascii ''status'', JStr (ascii ''success'')),
                       (ascii ''campaign_id'', JStr (ascii ''42''))]))]"
        "JObj [(ascii ''status'', JStr (ascii ''error''))]"]
      campaign_redirect [of campaign_page campaign_form_data
        "route [(ascii ''/api/campaign/create'', Json (JObj [(ascii ''status'', JStr (ascii ''error''))]))]"
        "JObj [(ascii ''status'', JStr (ascii ''error''))]"]
      campaign_page_formData g
    by (simp add: route_create n)
qed

text \<open>
  Claim C8, as the code has it. For a response that parses to an object, the handler
  attempts the redirect exactly when the \<^verbatim>\<open>status\<close> property is the string
  "success", whether or not there is a \<^verbatim>\<open>campaign_id\<close>: the target is
  \<^verbatim>\<open>/add-leads?campaign=\<close> followed by the string conversion of that property,
  which is \<^verbatim>\<open>undefined\<close> for an absent one. When the conversion throws, the
  error is logged and there is no navigation. Otherwise nothing is logged.
\<close>

theorem campaign_redirect_status_only:
  "(formData b = Inr fd \<and> srv (create_request fd) = Json (JObj kvs) \<longrightarrow>
      navigations (fst (campaign_submit srv b)) =
        (if own_property kvs (ascii ''status'') = Some (JStr (ascii ''success''))
         then (case to_string (case own_property kvs (ascii ''campaign_id'') of
                                 None \<Rightarrow> JUndefined | Some v \<Rightarrow> v) of
                 Inl e \<Rightarrow> navigations b
               | Inr id_string \<Rightarrow> navigations b @ [ascii ''/add-leads?campaign='' @ id_string])
         else navigations b)
      \<and> console (fst (campaign_submit srv b)) =
        (if own_property kvs (ascii ''status'') = Some (JStr (ascii ''success''))
         then (case to_string (case own_property kvs (ascii ''campaign_id'') of
                                 None \<Rightarrow> JUndefined | Some v \<Rightarrow> v) of
                 Inl e \<Rightarrow> console b @ [(ascii ''Error creating campaign:'', e)]
               | Inr id_string \<Rightarrow> console b)
         else console b))
   \<and> (formData b = Inr fd
      \<and> srv (create_request fd) = Json (JObj [(ascii ''status'', JStr (ascii ''success''))]) \<longrightarrow>
      navigations (fst (campaign_submit srv b)) = navigations b @ [ascii ''/add-leads?campaign=undefined''])"
proof (intro conjI impI)
  assume h: "formData b = Inr fd \<and> srv (create_request fd) = Json (JObj kvs)"
  then show "navigations (fst (campaign_submit srv b)) =
        (if own_property kvs (ascii ''status'') = Some (JStr (ascii ''success''))
         then (case to_string (case own_property kvs (ascii ''campaign_id'') of
                                 None \<Rightarrow> JUndefined | Some v \<Rightarrow> v) of
                 Inl e \<Rightarrow> navigations b
               | Inr id_string \<Rightarrow> navigations b @ [ascii ''/add-leads?campaign='' @ id_string])
         else navigations b)"
    by (auto simp: campaign_submit_result [of b fd srv] Let_def split: option.splits sum.splits)
  from h show "console (fst (campaign_submit srv b)) =
        (if own_property kvs (ascii ''status'') = Some (JStr (ascii ''success''))
         then (case to_string (case own_property kvs (ascii ''campaign_id'') of
                                 None \<Rightarrow> JUndefined | Some v \<Rightarrow> v) of
                 Inl e \<Rightarrow> console b @ [(ascii ''Error creating campaign:'', e)]
               | Inr id_string \<Rightarrow> console b)
         else console b)"
    by (auto simp: campaign_submit_result [of b fd srv] Let_def split: option.splits sum.splits)
next
  assume "formData b = Inr fd
      \<and> srv (create_request fd) = Json (JObj [(ascii ''status'', JStr (ascii ''success''))])"
  then show "navigations (fst (campaign_submit srv b)) = navigations b @ [ascii ''/add-leads?campaign=undefined'']"
    by (simp add: campaign_submit_result [of b fd srv] Let_def)
qed

theorem campaign_redirect_status_only_witness:
  "formData campaign_page = Inr campaign_form_data
   \<and> navigations (fst (campaign_submit
        (route [(ascii ''/api/campaign/create'', Json (JObj [(ascii ''status'', JStr (ascii ''success''))]))])
        campaign_page)) = [ascii ''/add-leads?campaign=undefined'']
   \<and> console (fst (campaign_submit
        (route [(ascii ''/api/campaign/create'', Json (JObj [(ascii ''status'', JStr (ascii ''success''))]))])
        campaign_page)) = []
   \<and> navigations (fst (campaign_submit
        (route [(ascii ''/api/campaign/create'',
           Json (JObj [(ascii ''campaign_id'', JStr (ascii ''42''))]))]) campaign_page)) = []
   \<and> navigations (fst (campaign_submit
        (route [(ascii ''/api/campaign/create'',
           Json (JObj [(ascii ''status'', JStr (ascii ''success'')),
                       (ascii ''campaign_id'', JArr [JNum 4, JNum 2])]))]) campaign_page))
       = [ascii ''/add-leads?campaign=4,2'']"
proof -
  have n: "navigations campaign_page = []" "console campaign_page = []"
    by (simp_all add: campaign_page_def dashboard_page_def)
  have t: "to_string (JArr [JNum 4, JNum 2]) = Inr (ascii ''4,2'')"
    by (simp add: number_to_string_def digits.simps ascii_def comma_def)
  from campaign_redirect_status_only [of campaign_page campaign_form_data
        "route [(ascii ''/api/campaign/create'', Json (JObj [(ascii ''status'', JStr (ascii ''success''))]))]"
        "[(ascii ''status'', JStr (ascii ''success''))]"] campaign_page_formData
  have r1: "navigations (fst (campaign_submit
        (route [(ascii ''/api/campaign/create'', Json (JObj [(ascii ''status'', JStr (ascii ''success''))]))])
        campaign_page)) = [ascii ''/add-leads?campaign=undefined'']"
    "console (fst (campaign_submit
        (route [(ascii ''/api/campaign/create'', Json (JObj [(ascii ''status'', JStr (ascii ''success''))]))])
        campaign_page)) = []"
    by (simp_all add: route_create n)
  from campaign_redirect_status_only [of campaign_page campaign_form_data
        "route [(ascii ''/api/campaign/create'', Json (JObj [(ascii ''campaign_id'', JStr (ascii ''42''))]))]"
        "[(ascii ''campaign_id'', JStr (ascii ''42''))]"] campaign_page_formData
  have r2: "navigations (fst (campaign_submit
        (route [(ascii ''/api/campaign/create'',
           Json (JObj [(ascii ''campaign_id'', JStr (ascii ''42''))]))]) campaign_page)) = []"
    by (simp add: route_create n)
  from campaign_redirect_status_only [of campaign_page campaign_form_data
        "route [(ascii ''/api/campaign/create'',
           Json (JObj [(ascii ''status'', JStr (ascii ''success'')),
                       (ascii ''campaign_id'', JArr [JNum 4, JNum 2])]))]"
        "[(ascii ''status'', JStr (ascii ''success'')), (ascii ''campaign_id'', JArr [JNum 4, JNum 2])]"]
      campaign_page_formData
  have r3: "navigations (fst (campaign_submit
        (route [(ascii ''/api/campaign/create'',
           Json (JObj [(ascii ''status'', JStr (ascii ''success'')),
                       (ascii ''campaign_id'', JArr [JNum 4, JNum 2])]))]) campaign_page))
       = [ascii ''/add-leads?campaign=4,2'']"
    by (simp add: route_create n t del: to_string.simps)
  from campaign_page_formData r1 r2 r3 show ?thesis
    by blast
qed

theorem unprintable_id_counterexample:
  "unprintable_id_server (create_request campaign_form_data) =
      Json (JObj [(ascii ''status'', JStr (ascii ''success'')),
                  (ascii ''campaign_id'', JObj [(ascii ''toString'', JNum 1)])])
   \<and> formData campaign_page = Inr campaign_form_data
   \<and> navigations (fst (campaign_submit unprintable_id_server campaign_page)) = []
   \<and> console (fst (campaign_submit unprintable_id_server campaign_page))
       = [(ascii ''Error creating campaign:'', TypeError)]"
proof -
  have s: "unprintable_id_server (create_request campaign_form_data) =
      Json (JObj [(ascii ''status'', JStr (ascii ''success'')),
                  (ascii ''campaign_id'', JObj [(ascii ''toString'', JNum 1)])])"
    unfolding unprintable_id_server_def by (rule route_create)
  have n: "navigations campaign_page = []" "console campaign_page = []"
    by (simp_all add: campaign_page_def dashboard_page_def)
  show ?thesis
    using s campaign_page_formData
    by (simp add: campaign_submit_result [of campaign_page campaign_form_data] Let_def n)
qed

text \<open>
  Claim C7. A click on an anchor whose \<^verbatim>\<open>href\<close> is \<^verbatim>\<open>#\<close>, a
  same-page link whose empty fragment matches no element, suppresses the default action
  and then throws: querySelector rejects the selector, and the handler has no
  \<^verbatim>\<open>try\<close>. The lemmas after it give the cases in which the handler is
  silent.
\<close>

theorem anchor_click_bare_hash:
  "anchor_click (ascii ''#'') b = (b\<lparr>default_prevented := True\<rparr>, Some DOMSyntaxError)"
  by (simp add: anchor_click_def querySelector_def statement_defs hash_def ascii_def)

lemma anchor_click_missing_id:
  "plain_identifier ident \<Longrightarrow> elements b ident = None \<Longrightarrow>
   anchor_click (hash # ident) b = (b\<lparr>default_prevented := True\<rparr>, None)"
  by (auto simp: anchor_click_def querySelector_def statement_defs plain_identifier_def
      split: list.splits)

lemma anchor_click_missing_example:
  "anchor_click (ascii ''#missing'') dashboard_page = (dashboard_page\<lparr>default_prevented := True\<rparr>, None)"
proof -
  have "plain_identifier (ascii ''missing'')"
    by (simp add: plain_identifier_def is_letter_def is_digit_def ascii_def)
  moreover have "elements dashboard_page (ascii ''missing'') = None"
    by (simp add: dashboard_page_def)
  moreover have "ascii ''#missing'' = hash # ascii ''missing''"
    by (simp add: ascii_def hash_def)
  ultimately show ?thesis
    by (simp add: anchor_click_missing_id)
qed

lemma anchor_click_cases:
  "anchor_click href b =
     (case querySelector href (b\<lparr>default_prevented := True\<rparr>) of
        Inl e \<Rightarrow> (b\<lparr>default_prevented := True\<rparr>, Some e)
      | Inr None \<Rightarrow> (b\<lparr>default_prevented := True\<rparr>, None)
      | Inr (Some n) \<Rightarrow> (b\<lparr>default_prevented := True, scrolled := scrolled b @ [n]\<rparr>, None))"
  by (simp add: anchor_click_def statement_defs split: sum.splits option.splits)

lemma parse_leads_none_kept:
  "\<not> list_ex both_tokens_nonempty (js_split newline t) \<Longrightarrow> parse_leads t = []"
  by (simp add: parse_leads_def leads_of_lines_filter list_ex_iff filter_empty_conv)

lemma leads_submit_fetched_first:
  assumes "elements b (ascii ''leads-csv'') = Some el" and "field_value el = Some t"
  shows "\<exists>rest. fetched (fst (leads_submit srv b)) =
      fetched b @ upload_request (search_param (ascii ''campaign'') b) (parse_leads t) # rest"
  by (auto simp: leads_submit_result [OF assms] launchCampaign_result Let_def
      split: response.splits sum.splits)

text \<open>
  Claim C9. The empty text splits into exactly one line, the empty one, which is
  dropped. When no line of the text has two non-empty tokens the list of leads is empty.
  With the leads field in the page and an empty list of leads, the first request the
  handler issues is still the POST to \<^verbatim>\<open>/api/leads/upload\<close>, with an empty
  \<^verbatim>\<open>leads\<close> array in its body.
\<close>

theorem empty_leads_uploaded:
  "js_split newline [] = [[]]
   \<and> parse_leads [] = []
   \<and> (\<not> list_ex both_tokens_nonempty (js_split newline t) \<longrightarrow> parse_leads t = [])
   \<and> (elements b (ascii ''leads-csv'') = Some el \<and> field_value el = Some t \<and> parse_leads t = [] \<longrightarrow>
        (\<exists>rest. fetched (fst (leads_submit srv b)) =
           fetched b @ upload_request (search_param (ascii ''campaign'') b) [] # rest))
   \<and> url (upload_request campaignId []) = ascii ''/api/leads/upload''
   \<and> http_method (upload_request campaignId []) = ascii ''POST''
   \<and> body (upload_request campaignId []) =
        Some (JObj [(ascii ''campaignId'', campaignId), (ascii ''leads'', JArr [])])"
proof (intro conjI impI)
  show "js_split newline [] = [[]]" by simp
  show "parse_leads [] = []"
    by (simp add: parse_leads_def leads_of_lines_def parse_line_def element_at_def truthy_def
        js_trim_def)
  show "parse_leads t = []" if "\<not> list_ex both_tokens_nonempty (js_split newline t)"
    using that by (rule parse_leads_none_kept)
  show "\<exists>rest. fetched (fst (leads_submit srv b)) =
           fetched b @ upload_request (search_param (ascii ''campaign'') b) [] # rest"
    if "elements b (ascii ''leads-csv'') = Some el \<and> field_value el = Some t \<and> parse_leads t = []"
    using that leads_submit_fetched_first [of b el t srv] by auto
qed (simp_all add: upload_request_def)

lemma leads_page_field:
  "elements (leads_page csv) (ascii ''leads-csv'') = Some (input csv)"
  "field_value (input csv) = Some (ascii csv)"
  "search_param (ascii ''campaign'') (leads_page csv) = JNull"
  "map_of (search_params (leads_page csv)) (ascii ''campaign'') = None"
  "fetched (leads_page csv) = []" "navigations (leads_page csv) = []" "console (leads_page csv) = []"
  by (simp_all add: leads_page_def dashboard_page_def input_def search_param_def)

theorem empty_leads_uploaded_witness:
  "\<not> list_ex both_tokens_nonempty (js_split newline (ascii ''JustAName\<newline>,\<newline>Carol,''))
   \<and> parse_leads (ascii ''JustAName\<newline>,\<newline>Carol,'') = []
   \<and> elements (leads_page ''JustAName\<newline>,\<newline>Carol,'') (ascii ''leads-csv'')
       = Some (input ''JustAName\<newline>,\<newline>Carol,'')
   \<and> field_value (input ''JustAName\<newline>,\<newline>Carol,'') = Some (ascii ''JustAName\<newline>,\<newline>Carol,'')
   \<and> (\<exists>rest. fetched (fst (leads_submit (route []) (leads_page ''JustAName\<newline>,\<newline>Carol,'')))
         = upload_request JNull [] # rest)"
proof -
  have a: "\<not> list_ex both_tokens_nonempty (js_split newline (ascii ''JustAName\<newline>,\<newline>Carol,''))"
    by (simp add: both_tokens_nonempty_def ascii_def newline_def comma_def js_trim_def)
  note w = empty_leads_uploaded [of "ascii ''JustAName\<newline>,\<newline>Carol,''"
      "leads_page ''JustAName\<newline>,\<newline>Carol,''" "input ''JustAName\<newline>,\<newline>Carol,''"
      "route []" JNull]
  from w a have e: "parse_leads (ascii ''JustAName\<newline>,\<newline>Carol,'') = []"
    by blast
  with w leads_page_field(1,2) [of "''JustAName\<newline>,\<newline>Carol,''"]
  have "\<exists>rest. fetched (fst (leads_submit (route []) (leads_page ''JustAName\<newline>,\<newline>Carol,''))) =
           fetched (leads_page ''JustAName\<newline>,\<newline>Carol,'') @
           upload_request (search_param (ascii ''campaign'') (leads_page ''JustAName\<newline>,\<newline>Carol,'')) [] # rest"
    by blast
  then have "\<exists>rest. fetched (fst (leads_submit (route []) (leads_page ''JustAName\<newline>,\<newline>Carol,'')))
         = upload_request JNull [] # rest"
    by (simp add: leads_page_field)
  with a e leads_page_field(1,2) [of "''JustAName\<newline>,\<newline>Carol,''"] show ?thesis
    by blast
qed

text \<open>
  Claim C10. When the query string has no \<^verbatim>\<open>campaign\<close> parameter the
  campaign identifier is \<^verbatim>\<open>null\<close>; it goes unchecked into the body of the
  upload request, and when the upload succeeds the launch request goes to
  \<^verbatim>\<open>/api/campaign/null/launch\<close>: the template literal converts
  \<^verbatim>\<open>null\<close> to the string \<^verbatim>\<open>null\<close>.
\<close>

theorem absent_campaign_is_null:
  "(map_of (search_params b) (ascii ''campaign'') = None \<longrightarrow>
      search_param (ascii ''campaign'') b = JNull)
   \<and> body (upload_request JNull leads) =
        Some (JObj [(ascii ''campaignId'', JNull), (ascii ''leads'', JArr (map lead_value leads))])
   \<and> to_string JNull = Inr (ascii ''null'')
   \<and> url (launch_request (ascii ''null'')) = ascii ''/api/campaign/null/launch''
   \<and> (map_of (search_params b) (ascii ''campaign'') = None
        \<and> elements b (ascii ''leads-csv'') = Some el \<and> field_value el = Some t \<longrightarrow>
        (\<exists>rest. fetched (fst (leads_submit srv b)) =
           fetched b @ upload_request JNull (parse_leads t) # rest))
   \<and> (map_of (search_params b) (ascii ''campaign'') = None
        \<and> elements b (ascii ''leads-csv'') = Some el \<and> field_value el = Some t
        \<and> srv (upload_request JNull (parse_leads t)) = Json data
        \<and> get_property data (ascii ''status'') = Inr (JStr (ascii ''success'')) \<longrightarrow>
        fetched (fst (leads_submit srv b)) =
          fetched b @ [upload_request JNull (parse_leads t), launch_request (ascii ''null'')])"
proof (intro conjI impI)
  show "search_param (ascii ''campaign'') b = JNull"
    if "map_of (search_params b) (ascii ''campaign'') = None"
    using that by (simp add: search_param_def)
  show "body (upload_request JNull leads) =
        Some (JObj [(ascii ''campaignId'', JNull), (ascii ''leads'', JArr (map lead_value leads))])"
    by (simp add: upload_request_def)
  show "to_string JNull = Inr (ascii ''null'')"
    by simp
  show "url (launch_request (ascii ''null'')) = ascii ''/api/campaign/null/launch''"
    by (simp add: launch_request_def)
  show "\<exists>rest. fetched (fst (leads_submit srv b)) =
           fetched b @ upload_request JNull (parse_leads t) # rest"
    if "map_of (search_params b) (ascii ''campaign'') = None
        \<and> elements b (ascii ''leads-csv'') = Some el \<and> field_value el = Some t"
    using that leads_submit_fetched_first [of b el t srv] by (simp add: search_param_def)
  show "fetched (fst (leads_submit srv b)) =
          fetched b @ [upload_request JNull (parse_leads t), launch_request (ascii ''null'')]"
    if "map_of (search_params b) (ascii ''campaign'') = None
        \<and> elements b (ascii ''leads-csv'') = Some el \<and> field_value el = Some t
        \<and> srv (upload_request JNull (parse_leads t)) = Json data
        \<and> get_property data (ascii ''status'') = Inr (JStr (ascii ''success''))"
    using that
    by (auto simp: leads_submit_result [of b el t srv] launchCampaign_result search_param_def Let_def
        split: response.splits sum.splits)
qed

lemma route_upload:
  "route ((ascii ''/api/leads/upload'', r) # table) (upload_request c ls) = r"
  by (simp add: route_def upload_request_def)

lemma parse_leads_Ann:
  "parse_leads (ascii ''Ann,555'') = [\<lparr>name = Some (ascii ''Ann''), phone = Some (ascii ''555'')\<rparr>]"
  by (simp add: parse_leads_def leads_of_lines_def parse_line_def ascii_def newline_def comma_def
     element_at_def truthy_def js_trim_def trimmable_def is_white_space_def is_line_terminator_def)

theorem absent_campaign_is_null_witness:
  "map_of (search_params (leads_page ''Ann,555'')) (ascii ''campaign'') = None
   \<and> search_param (ascii ''campaign'') (leads_page ''Ann,555'') = JNull
   \<and> elements (leads_page ''Ann,555'') (ascii ''leads-csv'') = Some (input ''Ann,555'')
   \<and> field_value (input ''Ann,555'') = Some (ascii ''Ann,555'')
   \<and> upload_only_server (upload_request JNull (parse_leads (ascii ''Ann,555'')))
       = Json (JObj [(ascii ''status'', JStr (ascii ''success''))])
   \<and> get_property (JObj [(ascii ''status'', JStr (ascii ''success''))]) (ascii ''status'')
       = Inr (JStr (ascii ''success''))
   \<and> fetched (fst (leads_submit upload_only_server (leads_page ''Ann,555''))) =
       [upload_request JNull [\<lparr>name = Some (ascii ''Ann''), phone = Some (ascii ''555'')\<rparr>],
        launch_request (ascii ''null'')]"
proof -
  have s: "upload_only_server (upload_request JNull (parse_leads (ascii ''Ann,555'')))
       = Json (JObj [(ascii ''status'', JStr (ascii ''success''))])"
    unfolding upload_only_server_def by (rule route_upload)
  have g: "get_property (JObj [(ascii ''status'', JStr (ascii ''success''))]) (ascii ''status'')
       = Inr (JStr (ascii ''success''))"
    by simp
  note f = leads_page_field [of "''Ann,555''"]
  from absent_campaign_is_null [of "leads_page ''Ann,555''" "[]" "input ''Ann,555''" "ascii ''Ann,555''"
      upload_only_server "JObj [(ascii ''status'', JStr (ascii ''success''))]"] f(1,2,4) s g
  have "fetched (fst (leads_submit upload_only_server (leads_page ''Ann,555''))) =
          fetched (leads_page ''Ann,555'') @
            [upload_request JNull (parse_leads (ascii ''Ann,555'')), launch_request (ascii ''null'')]"
    by blast
  then have "fetched (fst (leads_submit upload_only_server (leads_page ''Ann,555''))) =
       [upload_request JNull [\<lparr>name = Some (ascii ''Ann''), phone = Some (ascii ''555'')\<rparr>],
        launch_request (ascii ''null'')]"
    by (simp add: f parse_leads_Ann)
  with f s g show ?thesis
    by blast
qed

text \<open>
  Claim C6, as the code has it. After an upload that answers with the status "success",
  the handler issues a POST to the launch endpoint of the campaign (the identifier of
  the query string, null or a string, converts to a string without fail) and throws
  nothing.
  When the launch answers with the status "started" the browser is sent to
  \<^verbatim>\<open>/dashboard\<close>. When the launch request is rejected, its body is not JSON
  or its body is \<^verbatim>\<open>null\<close>, the error is logged and there is no redirect.
  When the launch answers with any other status there is no redirect and nothing is
  logged.
\<close>

theorem launch_after_upload:
  assumes "elements b (ascii ''leads-csv'') = Some el" and "field_value el = Some t"
    and "search_param (ascii ''campaign'') b = campaignId"
    and "srv (upload_request campaignId (parse_leads t)) = Json data"
    and "get_property data (ascii ''status'') = Inr (JStr (ascii ''success''))"
  shows "\<exists>id_string. to_string campaignId = Inr id_string
    \<and> fetched (fst (leads_submit srv b)) =
           fetched b @ [upload_request campaignId (parse_leads t), launch_request id_string]
    \<and> http_method (launch_request id_string) = ascii ''POST''
    \<and> url (launch_request id_string) =
         ascii ''/api/campaign/'' @ id_string @ ascii ''/launch''
    \<and> snd (leads_submit srv b) = None
    \<and> (case srv (launch_request id_string) of
          Rejected \<Rightarrow>
            navigations (fst (leads_submit srv b)) = navigations b
            \<and> console (fst (leads_submit srv b)) =
                console b @ [(ascii ''Error launching campaign:'', TypeError)]
        | NotJson \<Rightarrow>
            navigations (fst (leads_submit srv b)) = navigations b
            \<and> console (fst (leads_submit srv b)) =
                console b @ [(ascii ''Error launching campaign:'', SyntaxError)]
        | Json launched \<Rightarrow>
            (case get_property launched (ascii ''status'') of
               Inl e \<Rightarrow>
                 navigations (fst (leads_submit srv b)) = navigations b
                 \<and> console (fst (leads_submit srv b)) =
                     console b @ [(ascii ''Error launching campaign:'', e)]
             | Inr status \<Rightarrow>
                 if status = JStr (ascii ''started'')
                 then navigations (fst (leads_submit srv b)) = navigations b @ [ascii ''/dashboard'']
                      \<and> console (fst (leads_submit srv b)) = console b
                 else navigations (fst (leads_submit srv b)) = navigations b
                      \<and> console (fst (leads_submit srv b)) = console b))"
proof -
  let ?b1 = "b\<lparr>default_prevented := True,
      fetched := fetched b @ [upload_request campaignId (parse_leads t)]\<rparr>"
  have run: "leads_submit srv b = launchCampaign srv campaignId ?b1"
    using assms(3-5) by (simp add: leads_submit_result [OF assms(1,2)] Let_def)
  obtain id_string where s: "to_string campaignId = Inr id_string"
    using assms(3) by (auto simp: search_param_def split: option.splits)
  show ?thesis
    unfolding run
    by (rule exI [of _ id_string])
      (simp add: s launchCampaign_result launch_request_def Let_def
        split: response.splits sum.splits)
qed

lemma launch_null_url: "url (launch_request (ascii ''null'')) = ascii ''/api/campaign/null/launch''"
  by (simp add: launch_request_def)

lemma route_launch:
  "route [(ascii ''/api/leads/upload'', r), (ascii ''/api/campaign/null/launch'', r')]
     (launch_request (ascii ''null'')) = r'"
  by (simp add: route_def launch_null_url)

theorem launch_after_upload_witness:
  "fetched (fst (leads_submit started_server (leads_page ''Ann,555''))) =
       [upload_request JNull [\<lparr>name = Some (ascii ''Ann''), phone = Some (ascii ''555'')\<rparr>],
        launch_request (ascii ''null'')]
   \<and> navigations (fst (leads_submit started_server (leads_page ''Ann,555''))) = [ascii ''/dashboard'']
   \<and> console (fst (leads_submit started_server (leads_page ''Ann,555''))) = []
   \<and> snd (leads_submit started_server (leads_page ''Ann,555'')) = None"
proof -
  note f = leads_page_field [of "''Ann,555''"]
  have s: "started_server (upload_request JNull (parse_leads (ascii ''Ann,555'')))
       = Json (JObj [(ascii ''status'', JStr (ascii ''success''))])"
    unfolding started_server_def by (rule route_upload)
  have l: "started_server (launch_request (ascii ''null'')) = Json (JObj [(ascii ''status'', JStr (ascii ''started''))])"
    unfolding started_server_def by (rule route_launch)
  have g: "get_property (JObj [(ascii ''status'', JStr (ascii ''success''))]) (ascii ''status'')
       = Inr (JStr (ascii ''success''))"
    by simp
  show ?thesis
    using launch_after_upload [of "leads_page ''Ann,555''" "input ''Ann,555''" "ascii ''Ann,555''" JNull
        started_server "JObj [(ascii ''status'', JStr (ascii ''success''))]"] f(1,2,3) s g
    by (simp add: l f parse_leads_Ann)
qed

theorem launch_failure_counterexample:
  "fetched (fst (leads_submit launch_error_server (leads_page ''Ann,555''))) =
       [upload_request JNull [\<lparr>name = Some (ascii ''Ann''), phone = Some (ascii ''555'')\<rparr>],
        launch_request (ascii ''null'')]
   \<and> launch_error_server (launch_request (ascii ''null'')) = Json (JObj [(ascii ''status'', JStr (ascii ''error''))])
   \<and> navigations (fst (leads_submit launch_error_server (leads_page ''Ann,555''))) = []
   \<and> console (fst (leads_submit launch_error_server (leads_page ''Ann,555''))) = []"
proof -
  note f = leads_page_field [of "''Ann,555''"]
  have s: "\<And>ls. launch_error_server (upload_request JNull ls)
       = Json (JObj [(ascii ''status'', JStr (ascii ''success''))])"
    unfolding launch_error_server_def by (rule route_upload)
  have l: "launch_error_server (launch_request (ascii ''null'')) = Json (JObj [(ascii ''status'', JStr (ascii ''error''))])"
    unfolding launch_error_server_def by (rule route_launch)
  show ?thesis
    by (simp add: leads_submit_result [OF f(1) f(2)] launchCampaign_result f s l parse_leads_Ann Let_def)
qed

end
